theory Spec2Isabelle
  imports Complex_Main
begin

section \<open>Similarity ranking of patent embeddings (BigQuery/bigquery.py)\<close>

text \<open>
  The development embeds the class \<open>SimilarityCalculator\<close> of
  \<open>src/BigQuery/bigquery.py\<close>: the scalar \<open>cosine_similarity\<close>, the vectorised
  \<open>batch_cosine_similarity\<close> and the ranking \<open>find_top_similar\<close>, together with the
  numpy and pandas operations they call.
\<close>

subsection \<open>numpy float64 values\<close>

text \<open>
  A float64 is a finite number, an infinity or NaN.  Arithmetic on finite values is
  exact here: rounding, overflow, underflow and the sign of zero are not modelled.
  What is modelled is the behaviour numpy has where Python's own floats would raise:
  a division by zero yields an infinity or NaN (with a warning), never an exception,
  and NaN propagates through every operation and fails every comparison.
\<close>

datatype npfloat = Fin real | PInf | NInf | NaN

fun np_add :: "npfloat \<Rightarrow> npfloat \<Rightarrow> npfloat" where
  "np_add NaN y = NaN"
| "np_add x NaN = NaN"
| "np_add (Fin x) (Fin y) = Fin (x + y)"
| "np_add PInf NInf = NaN"
| "np_add NInf PInf = NaN"
| "np_add PInf y = PInf"
| "np_add x PInf = PInf"
| "np_add NInf y = NInf"
| "np_add x NInf = NInf"

fun np_mul :: "npfloat \<Rightarrow> npfloat \<Rightarrow> npfloat" where
  "np_mul NaN y = NaN"
| "np_mul x NaN = NaN"
| "np_mul (Fin x) (Fin y) = Fin (x * y)"
| "np_mul (Fin x) PInf = (if x = 0 then NaN else if 0 < x then PInf else NInf)"
| "np_mul (Fin x) NInf = (if x = 0 then NaN else if 0 < x then NInf else PInf)"
| "np_mul PInf (Fin y) = (if y = 0 then NaN else if 0 < y then PInf else NInf)"
| "np_mul NInf (Fin y) = (if y = 0 then NaN else if 0 < y then NInf else PInf)"
| "np_mul PInf PInf = PInf"
| "np_mul PInf NInf = NInf"
| "np_mul NInf PInf = NInf"
| "np_mul NInf NInf = PInf"

fun np_div :: "npfloat \<Rightarrow> npfloat \<Rightarrow> npfloat" where
  "np_div NaN y = NaN"
| "np_div x NaN = NaN"
| "np_div (Fin x) (Fin y) =
     (if y = 0 then (if x = 0 then NaN else if 0 < x then PInf else NInf)
      else Fin (x / y))"
| "np_div (Fin x) PInf = Fin 0"
| "np_div (Fin x) NInf = Fin 0"
| "np_div PInf (Fin y) = (if 0 \<le> y then PInf else NInf)"
| "np_div NInf (Fin y) = (if 0 \<le> y then NInf else PInf)"
| "np_div PInf PInf = NaN"
| "np_div PInf NInf = NaN"
| "np_div NInf PInf = NaN"
| "np_div NInf NInf = NaN"

fun np_sqrt :: "npfloat \<Rightarrow> npfloat" where
  "np_sqrt (Fin x) = (if x < 0 then NaN else Fin (sqrt x))"
| "np_sqrt PInf = PInf"
| "np_sqrt NInf = NaN"
| "np_sqrt NaN = NaN"

definition isnan :: "npfloat \<Rightarrow> bool" where
  "isnan x = (x = NaN)"

text \<open>The comparisons \<open>==\<close>, \<open><\<close> and \<open>>=\<close> of float64: each is false when an operand is NaN.\<close>

definition np_eq :: "npfloat \<Rightarrow> npfloat \<Rightarrow> bool" where
  "np_eq x y = (\<not> isnan x \<and> \<not> isnan y \<and> x = y)"

fun np_lt :: "npfloat \<Rightarrow> npfloat \<Rightarrow> bool" where
  "np_lt NaN y = False"
| "np_lt x NaN = False"
| "np_lt (Fin x) (Fin y) = (x < y)"
| "np_lt x NInf = False"
| "np_lt PInf y = False"
| "np_lt NInf y = True"
| "np_lt x PInf = True"

definition np_ge :: "npfloat \<Rightarrow> npfloat \<Rightarrow> bool" where
  "np_ge x y = (\<not> isnan x \<and> \<not> isnan y \<and> \<not> np_lt x y)"

subsection \<open>numpy vector operations\<close>

text \<open>
  A one-dimensional array is a list of floats; a two-dimensional array of shape
  \<open>(n, d)\<close> is a list of \<open>n\<close> rows of length \<open>d\<close>.  The only exception numpy raises in
  this code is \<open>ValueError\<close>: for rows of unequal length handed to \<open>np.array\<close> and for
  operands of \<open>np.dot\<close> whose shapes are not aligned.
\<close>

datatype np_error = ValueError

primrec np_sum :: "npfloat list \<Rightarrow> npfloat" where
  "np_sum [] = Fin 0"
| "np_sum (x # xs) = np_add x (np_sum xs)"

definition vdot :: "npfloat list \<Rightarrow> npfloat list \<Rightarrow> npfloat" where
  "vdot a b = np_sum (map (\<lambda>(x, y). np_mul x y) (zip a b))"

text \<open>\<open>np.dot\<close> of two vectors.\<close>

definition np_dot :: "npfloat list \<Rightarrow> npfloat list \<Rightarrow> np_error + npfloat" where
  "np_dot a b = (if length a = length b then Inr (vdot a b) else Inl ValueError)"

text \<open>
  \<open>np.dot\<close> of an \<open>(n, d)\<close> array and a vector: one inner product for each row.  The
  rounding that numpy's kernel applies to each row, which can differ from row to row,
  is outside the model, as all rounding is.
\<close>

definition np_dot_rows :: "npfloat list list \<Rightarrow> npfloat list \<Rightarrow> np_error + npfloat list" where
  "np_dot_rows m v =
     (if \<forall>r \<in> set m. length r = length v then Inr (map (\<lambda>r. vdot r v) m)
      else Inl ValueError)"

text \<open>\<open>np.linalg.norm\<close> of a vector (and of each row, with \<open>axis=1\<close>).\<close>

definition linalg_norm :: "npfloat list \<Rightarrow> npfloat" where
  "linalg_norm v = np_sqrt (np_sum (map (\<lambda>x. np_mul x x) v))"

text \<open>\<open>np.array\<close> of a non-empty list of vectors: a two-dimensional array when all have
  one length, an error otherwise.\<close>

definition np_array :: "npfloat list list \<Rightarrow> np_error + npfloat list list" where
  "np_array vs =
     (if \<forall>v \<in> set vs. length v = length (hd vs) then Inr vs else Inl ValueError)"

subsection \<open>SimilarityCalculator\<close>

definition cosine_similarity :: "npfloat list \<Rightarrow> npfloat list \<Rightarrow> np_error + npfloat" where
  "cosine_similarity vec1 vec2 =
     (case np_dot vec1 vec2 of
        Inl e \<Rightarrow> Inl e
      | Inr dot_product \<Rightarrow>
          (let norm_vec1 = linalg_norm vec1;
               norm_vec2 = linalg_norm vec2
           in if np_eq norm_vec1 (Fin 0) \<or> np_eq norm_vec2 (Fin 0) then Inr (Fin 0)
              else Inr (np_div dot_product (np_mul norm_vec1 norm_vec2))))"

text \<open>\<open>v / np.linalg.norm(v)\<close>: every component divided by the norm of its vector.\<close>

definition div_by_norm :: "npfloat list \<Rightarrow> npfloat list" where
  "div_by_norm v = map (\<lambda>x. np_div x (linalg_norm v)) v"

definition batch_cosine_similarity ::
  "npfloat list \<Rightarrow> npfloat list list \<Rightarrow> np_error + npfloat list" where
  "batch_cosine_similarity target_vec candidate_vecs =
     (let target_norm = div_by_norm target_vec;
          candidate_norms = map div_by_norm candidate_vecs
      in np_dot_rows candidate_norms target_norm)"

subsection \<open>Data frames\<close>

text \<open>
  A row of a frame is its index label and its columns.  A row of \<open>candidates_df\<close> has
  the columns selected by \<open>get_candidate_embeddings\<close>; its label is whatever the
  caller's frame holds (the position, for a frame that comes straight from
  \<open>to_dataframe()\<close>).  A row of the returned frame keeps the label and the metadata
  columns, has lost \<open>embedding_v1\<close> and has gained \<open>similarity_score\<close>.
\<close>

record patent_meta =
  df_index :: int
  publication_number :: string
  title :: string
  filing_date :: int
  country_code :: string

record patent_row = patent_meta +
  embedding_v1 :: "npfloat list"

record result_row = patent_meta +
  similarity_score :: npfloat

text \<open>
  \<open>nlargest(n, column)\<close> with the default \<open>keep='first'\<close>, after the pandas
  documentation: the first \<open>n\<close> entries in descending order of the column, entries of
  equal value in their original order, entries whose value is NaN after all others;
  nothing for \<open>n \<le> 0\<close>.  The column is given as the function \<open>key\<close>.
\<close>

fun insort_desc :: "('a \<Rightarrow> npfloat) \<Rightarrow> 'a \<Rightarrow> 'a list \<Rightarrow> 'a list" where
  "insort_desc key x [] = [x]"
| "insort_desc key x (y # ys) =
     (if np_lt (key x) (key y) then y # insort_desc key x ys else x # y # ys)"

definition sort_desc :: "('a \<Rightarrow> npfloat) \<Rightarrow> 'a list \<Rightarrow> 'a list" where
  "sort_desc key xs = foldr (insort_desc key) xs []"

definition nlargest :: "int \<Rightarrow> ('a \<Rightarrow> npfloat) \<Rightarrow> 'a list \<Rightarrow> 'a list" where
  "nlargest n key df =
     (if n \<le> 0 then []
      else take (nat n)
             (sort_desc key (filter (\<lambda>r. \<not> isnan (key r)) df)
              @ filter (\<lambda>r. isnan (key r)) df))"

text \<open>
  \<open>DataFrame.nlargest\<close> works on the column with the index reset: it selects the
  positions of the rows to return, the indexer, and takes these rows from the frame,
  labels included.
\<close>

definition nlargest_indexer :: "int \<Rightarrow> npfloat list \<Rightarrow> nat list" where
  "nlargest_indexer n column = nlargest n (\<lambda>i. column ! i) [0..<length column]"

text \<open>\<open>drop('embedding_v1', axis=1)\<close> on one row of \<open>result_df\<close>, a candidate row with its
  score.\<close>

definition drop_embedding :: "patent_row \<times> npfloat \<Rightarrow> result_row" where
  "drop_embedding r =
     (case r of (row, s) \<Rightarrow>
        \<lparr>df_index = df_index row, publication_number = publication_number row,
         title = title row, filing_date = filing_date row,
         country_code = country_code row, similarity_score = s\<rparr>)"

text \<open>
  The last steps of \<open>find_top_similar\<close>, from the scores on: \<open>result_df\<close> is the copy of
  \<open>candidates_df\<close> with the score column, \<open>top_k_df\<close> its \<open>nlargest\<close> rows, and the
  embedding column is dropped from the result.
\<close>

definition top_k_rows :: "patent_row list \<Rightarrow> npfloat list \<Rightarrow> int \<Rightarrow> result_row list" where
  "top_k_rows candidates_df similarities top_k =
     (let result_df = zip candidates_df similarities;
          indexer = nlargest_indexer (min top_k (int (length result_df)))
                      (map snd result_df);
          top_k_df = map (\<lambda>i. result_df ! i) indexer
      in map drop_embedding top_k_df)"

definition find_top_similar ::
  "npfloat list \<Rightarrow> patent_row list \<Rightarrow> int \<Rightarrow> np_error + result_row list" where
  "find_top_similar target_embedding candidates_df top_k =
     (if length candidates_df = 0 then Inr []
      else
        (case np_array (map embedding_v1 candidates_df) of
           Inl e \<Rightarrow> Inl e
         | Inr candidate_embeddings \<Rightarrow>
            (case batch_cosine_similarity target_embedding candidate_embeddings of
               Inl e \<Rightarrow> Inl e
             | Inr similarities \<Rightarrow> Inr (top_k_rows candidates_df similarities top_k))))"

section \<open>Properties\<close>

lemma np_mul_commute: "np_mul x y = np_mul y x"
  by (cases x; cases y) (simp_all add: mult.commute)

lemma vdot_commute: "vdot a b = vdot b a"
proof -
  have "map (\<lambda>(x, y). np_mul x y) (zip a b) = map (\<lambda>(x, y). np_mul x y) (zip b a)"
    by (induction a arbitrary: b) (auto simp: np_mul_commute split: list.splits
        simp: zip_Cons1)
  then show ?thesis by (simp add: vdot_def)
qed

subsection \<open>The scalar score\<close>

lemma np_sum_sq_cases:
  "(\<exists>r. 0 \<le> r \<and> np_sum (map (\<lambda>x. np_mul x x) v) = Fin r)
   \<or> np_sum (map (\<lambda>x. np_mul x x) v) = PInf
   \<or> np_sum (map (\<lambda>x. np_mul x x) v) = NaN"
proof (induction v)
  case Nil
  then show ?case by simp
next
  case (Cons a v)
  then show ?case by (cases a) auto
qed

lemma linalg_norm_cases:
  "(\<exists>r. 0 \<le> r \<and> linalg_norm v = Fin r) \<or> linalg_norm v = PInf \<or> linalg_norm v = NaN"
  using np_sum_sq_cases [of v] by (auto simp: linalg_norm_def)

lemma norm_product_nonzero:
  assumes "\<not> np_eq (linalg_norm a) (Fin 0)" "\<not> np_eq (linalg_norm b) (Fin 0)"
  shows "\<not> np_eq (np_mul (linalg_norm a) (linalg_norm b)) (Fin 0)"
  using assms linalg_norm_cases [of a] linalg_norm_cases [of b]
  by (auto simp: np_eq_def isnan_def)

text \<open>
  Claim C2.  For two vectors of one dimension, \<open>cosine_similarity\<close> returns the
  sentinel \<open>0.0\<close> as soon as the norm of either compares equal to zero; it divides
  only when neither does, and the divisor, the product of the two norms, is then not
  zero.  (Vectors of different dimensions never reach the test: \<open>np.dot\<close> raises
  first.)
\<close>

theorem cosine_similarity_zero_norm:
  assumes "length vec1 = length vec2"
  shows "(np_eq (linalg_norm vec1) (Fin 0) \<or> np_eq (linalg_norm vec2) (Fin 0)
            \<longrightarrow> cosine_similarity vec1 vec2 = Inr (Fin 0))
       \<and> (\<not> np_eq (linalg_norm vec1) (Fin 0) \<and> \<not> np_eq (linalg_norm vec2) (Fin 0)
            \<longrightarrow> cosine_similarity vec1 vec2 =
                  Inr (np_div (vdot vec1 vec2) (np_mul (linalg_norm vec1) (linalg_norm vec2)))
                \<and> \<not> np_eq (np_mul (linalg_norm vec1) (linalg_norm vec2)) (Fin 0))"
  using assms norm_product_nonzero [of vec1 vec2]
  by (simp add: cosine_similarity_def np_dot_def Let_def)

theorem cosine_similarity_zero_norm_witness:
  "length [Fin 0, Fin 0] = length [Fin 1, Fin 0]
   \<and> np_eq (linalg_norm [Fin 0, Fin 0]) (Fin 0)
   \<and> cosine_similarity [Fin 0, Fin 0] [Fin 1, Fin 0] = Inr (Fin 0)"
  using cosine_similarity_zero_norm [of "[Fin 0, Fin 0]" "[Fin 1, Fin 0]"]
  by (simp add: linalg_norm_def np_eq_def isnan_def)

text \<open>
  Claim C10.  The scalar score is symmetric: for two vectors of one dimension
  \<open>cosine_similarity a b\<close> and \<open>cosine_similarity b a\<close> are the same score, in the
  sentinel branch as in the division branch.
\<close>

theorem cosine_similarity_symmetric:
  assumes "length a = length b"
  shows "cosine_similarity a b = cosine_similarity b a
       \<and> (\<exists>s. cosine_similarity a b = Inr s)"
  using assms
  by (auto simp: cosine_similarity_def np_dot_def Let_def vdot_commute [of a b]
      np_mul_commute [of "linalg_norm a" "linalg_norm b"])

theorem cosine_similarity_symmetric_witness:
  "length [Fin 1, Fin 0] = length [Fin 1, Fin 1]
   \<and> cosine_similarity [Fin 1, Fin 0] [Fin 1, Fin 1]
       = cosine_similarity [Fin 1, Fin 1] [Fin 1, Fin 0]"
  using cosine_similarity_symmetric [of "[Fin 1, Fin 0]" "[Fin 1, Fin 1]"]
  by simp

subsection \<open>The vectorised score\<close>

lemma length_div_by_norm: "length (div_by_norm v) = length v"
  by (simp add: div_by_norm_def)

lemma batch_cosine_similarity_Inr:
  assumes "\<forall>r \<in> set rows. length r = length q"
  shows "batch_cosine_similarity q rows
         = Inr (map (\<lambda>r. vdot (div_by_norm r) (div_by_norm q)) rows)"
  using assms
  by (simp add: batch_cosine_similarity_def np_dot_rows_def Let_def length_div_by_norm comp_def)

lemma batch_cosine_similarity_Inl:
  assumes "r \<in> set rows" "length r \<noteq> length q"
  shows "batch_cosine_similarity q rows = Inl ValueError"
  using assms
  by (auto simp: batch_cosine_similarity_def np_dot_rows_def Let_def length_div_by_norm)

subsection \<open>Descending selection\<close>

lemma np_lt_irrefl: "\<not> np_lt x x"
  by (cases x) simp_all

lemma np_lt_trans: "np_lt x y \<Longrightarrow> np_lt y z \<Longrightarrow> np_lt x z"
  by (cases x; cases y; cases z) simp_all

lemma np_lt_total: "x \<noteq> NaN \<Longrightarrow> y \<noteq> NaN \<Longrightarrow> np_lt x y \<or> x = y \<or> np_lt y x"
  by (cases x; cases y) auto

lemma set_insort_desc: "set (insort_desc key x ys) = insert x (set ys)"
  by (induction ys) auto

lemma length_insort_desc: "length (insort_desc key x ys) = Suc (length ys)"
  by (induction ys) auto

lemma set_sort_desc: "set (sort_desc key xs) = set xs"
  by (induction xs) (auto simp: sort_desc_def set_insort_desc)

lemma length_sort_desc: "length (sort_desc key xs) = length xs"
  by (induction xs) (auto simp: sort_desc_def length_insort_desc)

lemma sorted_insort_desc:
  assumes "sorted_wrt (\<lambda>a b. np_lt (key b) (key a) \<or> key a = key b \<and> pos a < pos b) ys"
    and "\<forall>y \<in> set ys. pos x < pos y"
    and "key x \<noteq> NaN" and "\<forall>y \<in> set ys. key y \<noteq> NaN"
  shows "sorted_wrt (\<lambda>a b. np_lt (key b) (key a) \<or> key a = key b \<and> pos a < pos b)
           (insort_desc key x ys)"
  using assms
proof (induction ys)
  case Nil
  then show ?case by simp
next
  case (Cons y ys)
  show ?case
  proof (cases "np_lt (key x) (key y)")
    case True
    with Cons show ?thesis by (auto simp: set_insort_desc)
  next
    case False
    have xy: "np_lt (key y) (key x) \<or> key x = key y"
      using False Cons.prems(3,4) np_lt_total [of "key x" "key y"] by auto
    have "np_lt (key z) (key x) \<or> key x = key z \<and> pos x < pos z" if "z \<in> set (y # ys)" for z
    proof (cases "z = y")
      case True
      then show ?thesis using xy Cons.prems(2) by auto
    next
      case False
      then have "z \<in> set ys" using that by simp
      then have "np_lt (key z) (key y) \<or> key y = key z" using Cons.prems(1) by auto
      then show ?thesis using xy Cons.prems(2) that np_lt_trans by (metis)
    qed
    then show ?thesis using False Cons.prems(1) by auto
  qed
qed

lemma sorted_sort_desc:
  assumes "sorted_wrt (\<lambda>a b. pos a < pos b) xs" and "\<forall>x \<in> set xs. key x \<noteq> NaN"
  shows "sorted_wrt (\<lambda>a b. np_lt (key b) (key a) \<or> key a = key b \<and> pos a < pos b)
           (sort_desc key xs)"
  using assms
proof (induction xs)
  case Nil
  then show ?case by (simp add: sort_desc_def)
next
  case (Cons x xs)
  have "sort_desc key (x # xs) = insort_desc key x (sort_desc key xs)"
    by (simp add: sort_desc_def)
  moreover have "sorted_wrt (\<lambda>a b. np_lt (key b) (key a) \<or> key a = key b \<and> pos a < pos b)
      (insort_desc key x (sort_desc key xs))"
    using Cons by (intro sorted_insort_desc) (auto simp: set_sort_desc)
  ultimately show ?case by simp
qed

lemma sorted_nlargest:
  assumes "sorted_wrt (\<lambda>a b. pos a < pos b) df"
  shows "sorted_wrt (\<lambda>a b. np_lt (key b) (key a) \<or> (key a \<noteq> NaN \<and> key b = NaN)
                            \<or> key a = key b \<and> pos a < pos b)
           (nlargest n key df)"
proof -
  let ?R = "\<lambda>a b. np_lt (key b) (key a) \<or> (key a \<noteq> NaN \<and> key b = NaN)
                            \<or> key a = key b \<and> pos a < pos b"
  let ?good = "filter (\<lambda>r. \<not> isnan (key r)) df"
  let ?bad = "filter (\<lambda>r. isnan (key r)) df"
  have "sorted_wrt (\<lambda>a b. np_lt (key b) (key a) \<or> key a = key b \<and> pos a < pos b)
           (sort_desc key ?good)"
    using assms by (intro sorted_sort_desc) (auto simp: sorted_wrt_filter isnan_def)
  then have 1: "sorted_wrt ?R (sort_desc key ?good)"
    by (rule sorted_wrt_mono_rel [rotated]) auto
  have "sorted_wrt (\<lambda>a b. pos a < pos b) ?bad"
    using assms by (simp add: sorted_wrt_filter)
  then have 2: "sorted_wrt ?R ?bad"
    by (rule sorted_wrt_mono_rel [rotated]) (auto simp: isnan_def)
  have "sorted_wrt ?R (sort_desc key ?good @ ?bad)"
    using 1 2 by (auto simp: sorted_wrt_append set_sort_desc isnan_def)
  then have "sorted_wrt ?R (take (nat n) (sort_desc key ?good @ ?bad))"
    by (rule sorted_wrt_take)
  then show ?thesis
    by (simp add: nlargest_def del: take_append)
qed

lemma length_nlargest:
  "length (nlargest n key df) = (if n \<le> 0 then 0 else min (nat n) (length df))"
proof -
  have "length (filter (\<lambda>r. \<not> isnan (key r)) df) + length (filter (\<lambda>r. isnan (key r)) df)
        = length df"
    using sum_length_filter_compl [of "\<lambda>r. \<not> isnan (key r)" df] by simp
  then show ?thesis
    by (simp add: nlargest_def length_sort_desc min.commute del: take_append)
qed

lemma set_nlargest: "set (nlargest n key df) \<subseteq> set df"
proof -
  have "set (sort_desc key (filter (\<lambda>r. \<not> isnan (key r)) df) @ filter (\<lambda>r. isnan (key r)) df)
        \<subseteq> set df"
    by (auto simp: set_sort_desc)
  then have "set (take (nat n)
      (sort_desc key (filter (\<lambda>r. \<not> isnan (key r)) df) @ filter (\<lambda>r. isnan (key r)) df))
        \<subseteq> set df"
    using set_take_subset by fastforce
  then show ?thesis
    by (simp add: nlargest_def del: take_append)
qed

lemma nlargest_indexer_bound:
  "p \<in> set (nlargest_indexer n column) \<Longrightarrow> p < length column"
  using set_nlargest [of n "\<lambda>i. column ! i" "[0..<length column]"]
  by (auto simp: nlargest_indexer_def)

lemma length_nlargest_indexer:
  "length (nlargest_indexer n column)
   = (if n \<le> 0 then 0 else min (nat n) (length column))"
  by (simp add: nlargest_indexer_def length_nlargest)

lemma nlargest_indexer_ranked:
  "sorted_wrt (\<lambda>a b. np_lt (column ! b) (column ! a)
                   \<or> (column ! a \<noteq> NaN \<and> column ! b = NaN)
                   \<or> column ! a = column ! b \<and> a < b)
     (nlargest_indexer n column)"
  unfolding nlargest_indexer_def
  by (rule sorted_nlargest [where pos = "\<lambda>a. a"]) simp


lemma distinct_nlargest_indexer: "distinct (nlargest_indexer n column)"
  unfolding distinct_conv_nth
proof (intro allI impI)
  fix i j
  assume ij: "i < length (nlargest_indexer n column)" "j < length (nlargest_indexer n column)"
    "i \<noteq> j"
  have neq: "nlargest_indexer n column ! a \<noteq> nlargest_indexer n column ! b"
    if "a < b" "b < length (nlargest_indexer n column)" for a b
    using sorted_wrt_nth_less [OF nlargest_indexer_ranked that]
    by (auto simp: np_lt_irrefl)
  show "nlargest_indexer n column ! i \<noteq> nlargest_indexer n column ! j"
    using neq [of i j] neq [of j i] ij by (cases "i < j") auto
qed

subsection \<open>When the ranking returns\<close>

lemma top_k_rows_indexer:
  assumes "length sims = length cands"
  shows "top_k_rows cands sims k
         = map (\<lambda>p. drop_embedding (cands ! p, sims ! p))
             (nlargest_indexer (min k (int (length cands))) sims)"
proof -
  have "map (\<lambda>i. drop_embedding (zip cands sims ! i))
          (nlargest_indexer (min k (int (length cands))) sims)
        = map (\<lambda>p. drop_embedding (cands ! p, sims ! p))
          (nlargest_indexer (min k (int (length cands))) sims)"
    using assms by (intro map_cong refl) (auto dest: nlargest_indexer_bound)
  then show ?thesis
    using assms by (simp add: top_k_rows_def Let_def comp_def)
qed

lemma length_top_k_rows:
  assumes "length sims = length cands"
  shows "length (top_k_rows cands sims k)
         = (if min k (int (length cands)) \<le> 0 then 0
            else min (nat (min k (int (length cands)))) (length cands))"
  using assms by (simp add: top_k_rows_indexer length_nlargest_indexer)

lemma find_top_similar_Inr:
  assumes "\<forall>c \<in> set cands. length (embedding_v1 c) = length q"
  shows "batch_cosine_similarity q (map embedding_v1 cands)
           = Inr (map (\<lambda>c. vdot (div_by_norm (embedding_v1 c)) (div_by_norm q)) cands)
       \<and> find_top_similar q cands k
           = Inr (top_k_rows cands
                   (map (\<lambda>c. vdot (div_by_norm (embedding_v1 c)) (div_by_norm q)) cands) k)"
proof -
  have batch: "batch_cosine_similarity q (map embedding_v1 cands)
        = Inr (map (\<lambda>c. vdot (div_by_norm (embedding_v1 c)) (div_by_norm q)) cands)"
    using assms by (simp add: batch_cosine_similarity_Inr comp_def)
  show ?thesis
  proof (cases "cands = []")
    case True
    then show ?thesis
      using batch
      by (simp add: find_top_similar_def top_k_rows_def nlargest_indexer_def nlargest_def
          sort_desc_def)
  next
    case False
    then have "embedding_v1 (hd cands) \<in> embedding_v1 ` set cands" by simp
    then have "np_array (map embedding_v1 cands) = Inr (map embedding_v1 cands)"
      using assms False by (auto simp: np_array_def hd_map)
    then show ?thesis
      using False batch by (simp add: find_top_similar_def)
  qed
qed

lemma find_top_similar_Inl:
  assumes "c \<in> set cands" "length (embedding_v1 c) \<noteq> length q"
  shows "find_top_similar q cands k = Inl ValueError"
proof -
  have ne: "cands \<noteq> []" using assms by auto
  show ?thesis
  proof (cases "np_array (map embedding_v1 cands)")
    case (Inl e)
    then show ?thesis using ne by (cases e) (simp add: find_top_similar_def)
  next
    case (Inr m)
    then have m: "m = map embedding_v1 cands"
      by (auto simp: np_array_def split: if_splits)
    have "batch_cosine_similarity q m = Inl ValueError"
      using assms m by (intro batch_cosine_similarity_Inl [of "embedding_v1 c"]) auto
    then show ?thesis using ne Inr by (simp add: find_top_similar_def)
  qed
qed

lemma find_top_similar_Inr_dims:
  assumes "find_top_similar q cands k = Inr out"
  shows "\<forall>c \<in> set cands. length (embedding_v1 c) = length q"
  using assms find_top_similar_Inl by fastforce

lemma find_top_similar_scores:
  assumes "find_top_similar q cands k = Inr out"
  shows "\<exists>sims. length sims = length cands
           \<and> batch_cosine_similarity q (map embedding_v1 cands) = Inr sims
           \<and> out = top_k_rows cands sims k"
  using find_top_similar_Inr [OF find_top_similar_Inr_dims [OF assms], of k] assms
  by auto

lemma drop_embedding_sel:
  "df_index (drop_embedding r) = df_index (fst r)"
  "publication_number (drop_embedding r) = publication_number (fst r)"
  "title (drop_embedding r) = title (fst r)"
  "filing_date (drop_embedding r) = filing_date (fst r)"
  "country_code (drop_embedding r) = country_code (fst r)"
  "similarity_score (drop_embedding r) = snd r"
  by (cases r; simp add: drop_embedding_def)+

text \<open>The definitions a concrete call unfolds to.\<close>

lemmas eval_defs = find_top_similar_def np_array_def batch_cosine_similarity_def
      np_dot_rows_def div_by_norm_def linalg_norm_def vdot_def top_k_rows_def
      nlargest_indexer_def nlargest_def sort_desc_def isnan_def drop_embedding_def
      Let_def upt_rec

subsection \<open>Length of the result and failure of the call\<close>

text \<open>
  Claim C4 does not hold for every batch.  With a candidate of another dimension in
  the batch the call fails also for \<open>k = 0\<close>, where the claim promises the empty list;
  and nothing is filtered, so a zero vector, which is no valid candidate, is returned
  and counted: two rows for \<open>k = 2\<close> where one candidate is valid.
\<close>

theorem find_top_similar_length_counterexample:
  "find_top_similar [Fin 1, Fin 0]
     [\<lparr>df_index = 0, publication_number = ''JP-0-A'', title = ''t0'',
       filing_date = 20200101, country_code = ''JP'', embedding_v1 = [Fin 1, Fin 0]\<rparr>,
      \<lparr>df_index = 1, publication_number = ''JP-1-A'', title = ''t1'',
       filing_date = 20200102, country_code = ''JP'', embedding_v1 = [Fin 1]\<rparr>] 0
   = Inl ValueError
   \<and> np_eq (linalg_norm [Fin 0, Fin 0]) (Fin 0)
   \<and> find_top_similar [Fin 1, Fin 0]
     [\<lparr>df_index = 0, publication_number = ''JP-0-A'', title = ''t0'',
       filing_date = 20200101, country_code = ''JP'', embedding_v1 = [Fin 1, Fin 0]\<rparr>,
      \<lparr>df_index = 1, publication_number = ''JP-1-A'', title = ''t1'',
       filing_date = 20200102, country_code = ''JP'', embedding_v1 = [Fin 0, Fin 0]\<rparr>] 2
   = Inr [\<lparr>df_index = 0, publication_number = ''JP-0-A'', title = ''t0'',
       filing_date = 20200101, country_code = ''JP'', similarity_score = Fin 1\<rparr>,
      \<lparr>df_index = 1, publication_number = ''JP-1-A'', title = ''t1'',
       filing_date = 20200102, country_code = ''JP'', similarity_score = NaN\<rparr>]"
  by (simp add: eval_defs np_eq_def)

text \<open>
  Claim C4, amended.  When every candidate has the query's dimension, the ranking
  returns without error a list of \<open>min(k, n)\<close> rows for \<open>k \<ge> 0\<close>, where \<open>n\<close> is the number
  of rows of the batch (no candidate is filtered out), and the empty list for
  \<open>k \<le> 0\<close>.  When some candidate has another dimension the call fails with
  \<open>ValueError\<close> for every \<open>k\<close>.  On the empty batch it returns the empty list for every
  query and every \<open>k\<close>.
\<close>

theorem find_top_similar_length:
  "((\<forall>c \<in> set cands. length (embedding_v1 c) = length q) \<longrightarrow>
      (\<exists>out. find_top_similar q cands k = Inr out
         \<and> (0 \<le> k \<longrightarrow> int (length out) = min k (int (length cands)))
         \<and> (k \<le> 0 \<longrightarrow> out = [])))
   \<and> ((\<exists>c \<in> set cands. length (embedding_v1 c) \<noteq> length q) \<longrightarrow>
      find_top_similar q cands k = Inl ValueError)
   \<and> find_top_similar q [] k = Inr []"
proof (intro conjI impI)
  assume dims: "\<forall>c \<in> set cands. length (embedding_v1 c) = length q"
  let ?sims = "map (\<lambda>c. vdot (div_by_norm (embedding_v1 c)) (div_by_norm q)) cands"
  let ?out = "top_k_rows cands ?sims k"
  have run: "find_top_similar q cands k = Inr ?out"
    using find_top_similar_Inr [OF dims] by simp
  have len: "length ?out = (if min k (int (length cands)) \<le> 0 then 0
                            else min (nat (min k (int (length cands)))) (length cands))"
    by (simp add: length_top_k_rows)
  have "0 \<le> k \<longrightarrow> int (length ?out) = min k (int (length cands))"
    unfolding len by auto
  moreover have "k \<le> 0 \<longrightarrow> ?out = []"
    using len by (auto simp: min_def split: if_splits)
  ultimately show "\<exists>out. find_top_similar q cands k = Inr out
         \<and> (0 \<le> k \<longrightarrow> int (length out) = min k (int (length cands)))
         \<and> (k \<le> 0 \<longrightarrow> out = [])"
    using run by blast
next
  assume "\<exists>c \<in> set cands. length (embedding_v1 c) \<noteq> length q"
  then show "find_top_similar q cands k = Inl ValueError"
    using find_top_similar_Inl by blast
next
  show "find_top_similar q [] k = Inr []"
    by (simp add: find_top_similar_def)
qed

theorem find_top_similar_length_witness:
  "\<exists>out. find_top_similar [Fin 1, Fin 0]
     [\<lparr>df_index = 0, publication_number = ''JP-0-A'', title = ''t0'',
       filing_date = 20200101, country_code = ''JP'', embedding_v1 = [Fin 0, Fin 1]\<rparr>,
      \<lparr>df_index = 1, publication_number = ''JP-1-A'', title = ''t1'',
       filing_date = 20200102, country_code = ''JP'', embedding_v1 = [Fin 1, Fin 0]\<rparr>,
      \<lparr>df_index = 2, publication_number = ''JP-2-A'', title = ''t2'',
       filing_date = 20200103, country_code = ''JP'', embedding_v1 = [Fin 1, Fin 1]\<rparr>] 2
       = Inr out
     \<and> length out = 2"
  using find_top_similar_length [of
     "[\<lparr>df_index = 0, publication_number = ''JP-0-A'', title = ''t0'',
       filing_date = 20200101, country_code = ''JP'', embedding_v1 = [Fin 0, Fin 1]\<rparr>,
      \<lparr>df_index = 1, publication_number = ''JP-1-A'', title = ''t1'',
       filing_date = 20200102, country_code = ''JP'', embedding_v1 = [Fin 1, Fin 0]\<rparr>,
      \<lparr>df_index = 2, publication_number = ''JP-2-A'', title = ''t2'',
       filing_date = 20200103, country_code = ''JP'', embedding_v1 = [Fin 1, Fin 1]\<rparr>]"
     "[Fin 1, Fin 0]" 2]
  by simp

text \<open>
  Claim C1 does not hold: the query is never examined.  A zero-norm query against one
  candidate of its dimension is no error; the call returns that candidate, its score
  NaN.
\<close>

theorem find_top_similar_zero_query_counterexample:
  "np_eq (linalg_norm [Fin 0, Fin 0]) (Fin 0)
   \<and> find_top_similar [Fin 0, Fin 0]
     [\<lparr>df_index = 0, publication_number = ''JP-1-A'', title = ''t1'',
       filing_date = 20200101, country_code = ''JP'', embedding_v1 = [Fin 1, Fin 0]\<rparr>] 1
   = Inr [\<lparr>df_index = 0, publication_number = ''JP-1-A'', title = ''t1'',
       filing_date = 20200101, country_code = ''JP'', similarity_score = NaN\<rparr>]"
  by (simp add: eval_defs np_eq_def)

text \<open>
  Claim C1, amended.  The ranking has no check of the query and no error of its own:
  for every query, zero-norm and empty ones included, the call fails exactly when some
  candidate's vector length differs from the query's, and the failure is numpy's
  \<open>ValueError\<close>.  On the empty batch, and on any batch of the query's dimension, it
  returns a list.
\<close>

theorem find_top_similar_fails_iff:
  "(\<exists>e. find_top_similar q cands k = Inl e)
     \<longleftrightarrow> (\<exists>c \<in> set cands. length (embedding_v1 c) \<noteq> length q)"
proof
  assume "\<exists>e. find_top_similar q cands k = Inl e"
  then show "\<exists>c \<in> set cands. length (embedding_v1 c) \<noteq> length q"
    using find_top_similar_Inr [of cands q k] by fastforce
next
  assume "\<exists>c \<in> set cands. length (embedding_v1 c) \<noteq> length q"
  then show "\<exists>e. find_top_similar q cands k = Inl e"
    using find_top_similar_Inl by blast
qed

theorem find_top_similar_fails_iff_witness:
  "np_eq (linalg_norm [Fin 0, Fin 0, Fin 0]) (Fin 0)
   \<and> \<not> (\<exists>e. find_top_similar [Fin 0, Fin 0, Fin 0]
     [\<lparr>df_index = 0, publication_number = ''JP-1-A'', title = ''t1'',
       filing_date = 20200101, country_code = ''JP'',
       embedding_v1 = [Fin 1, Fin 0, Fin 0]\<rparr>,
      \<lparr>df_index = 1, publication_number = ''JP-2-A'', title = ''t2'',
       filing_date = 20200102, country_code = ''JP'',
       embedding_v1 = [Fin 0, Fin 1, Fin 0]\<rparr>] 10 = Inl e)"
  using find_top_similar_fails_iff [of "[Fin 0, Fin 0, Fin 0]"
     "[\<lparr>df_index = 0, publication_number = ''JP-1-A'', title = ''t1'',
       filing_date = 20200101, country_code = ''JP'',
       embedding_v1 = [Fin 1, Fin 0, Fin 0]\<rparr>,
      \<lparr>df_index = 1, publication_number = ''JP-2-A'', title = ''t2'',
       filing_date = 20200102, country_code = ''JP'',
       embedding_v1 = [Fin 0, Fin 1, Fin 0]\<rparr>]" 10]
  by (simp add: linalg_norm_def np_eq_def isnan_def)

text \<open>
  Claim C7 does not hold: with one candidate of length 2 in a batch of dimension 3 the
  whole call fails, and the valid candidate is not ranked.
\<close>

theorem find_top_similar_mismatch_counterexample:
  "find_top_similar [Fin 1, Fin 0, Fin 0]
     [\<lparr>df_index = 0, publication_number = ''A'', title = ''a'',
       filing_date = 20200101, country_code = ''JP'',
       embedding_v1 = [Fin 1, Fin 0, Fin 0]\<rparr>,
      \<lparr>df_index = 1, publication_number = ''E'', title = ''e'',
       filing_date = 20200102, country_code = ''JP'', embedding_v1 = [Fin 1, Fin 2]\<rparr>] 2
   = Inl ValueError"
  by (simp add: eval_defs)

text \<open>
  Claim C7, amended.  A batch in which two candidates disagree on the vector length is
  not repaired: no candidate is rejected locally, the call as a whole fails with
  \<open>ValueError\<close>, for every query and every \<open>k\<close>.
\<close>

theorem find_top_similar_dimension_mismatch:
  assumes "c1 \<in> set cands" and "c2 \<in> set cands"
    and "length (embedding_v1 c1) \<noteq> length (embedding_v1 c2)"
  shows "find_top_similar q cands k = Inl ValueError"
proof (cases "length (embedding_v1 c1) = length q")
  case True
  then have "length (embedding_v1 c2) \<noteq> length q" using assms(3) by simp
  with assms(2) show ?thesis by (rule find_top_similar_Inl)
next
  case False
  with assms(1) show ?thesis by (rule find_top_similar_Inl)
qed

theorem find_top_similar_dimension_mismatch_witness:
  "find_top_similar [Fin 1, Fin 0]
     [\<lparr>df_index = 0, publication_number = ''JP-1-A'', title = ''t1'',
       filing_date = 20200101, country_code = ''JP'', embedding_v1 = [Fin 1, Fin 0]\<rparr>,
      \<lparr>df_index = 1, publication_number = ''JP-2-A'', title = ''t2'',
       filing_date = 20200102, country_code = ''JP'',
       embedding_v1 = [Fin 1, Fin 0, Fin 0]\<rparr>] 0
   = Inl ValueError"
  using find_top_similar_dimension_mismatch [of
      "\<lparr>df_index = 0, publication_number = ''JP-1-A'', title = ''t1'',
       filing_date = 20200101, country_code = ''JP'', embedding_v1 = [Fin 1, Fin 0]\<rparr>"
     "[\<lparr>df_index = 0, publication_number = ''JP-1-A'', title = ''t1'',
       filing_date = 20200101, country_code = ''JP'', embedding_v1 = [Fin 1, Fin 0]\<rparr>,
      \<lparr>df_index = 1, publication_number = ''JP-2-A'', title = ''t2'',
       filing_date = 20200102, country_code = ''JP'',
       embedding_v1 = [Fin 1, Fin 0, Fin 0]\<rparr>]"
      "\<lparr>df_index = 1, publication_number = ''JP-2-A'', title = ''t2'',
       filing_date = 20200102, country_code = ''JP'',
       embedding_v1 = [Fin 1, Fin 0, Fin 0]\<rparr>"
      "[Fin 1, Fin 0]" 0]
  by simp

subsection \<open>Order of the returned rows\<close>




lemma np_lt_asym: "np_lt x y \<Longrightarrow> \<not> np_lt y x"
  using np_lt_trans [of x y x] np_lt_irrefl [of x] by blast

text \<open>Without a NaN among the returned scores the result is in non-increasing order.\<close>

lemma find_top_similar_sorted_without_nan:
  assumes "find_top_similar q cands k = Inr out"
    and "\<forall>r \<in> set out. \<not> isnan (similarity_score r)"
    and "i < j" and "j < length out"
  shows "np_ge (similarity_score (out ! i)) (similarity_score (out ! j))"
proof -
  obtain sims where sims: "length sims = length cands" "out = top_k_rows cands sims k"
    using find_top_similar_scores [OF assms(1)] by blast
  let ?ix = "nlargest_indexer (min k (int (length cands))) sims"
  have out: "out = map (\<lambda>p. drop_embedding (cands ! p, sims ! p)) ?ix"
    using sims by (simp add: top_k_rows_indexer)
  have j: "j < length ?ix" and i: "i < length ?ix" using assms(3,4) out by simp_all
  have si: "similarity_score (out ! i) = sims ! (?ix ! i)"
    and sj: "similarity_score (out ! j) = sims ! (?ix ! j)"
    using i j out by (simp_all add: drop_embedding_sel)
  have "np_lt (sims ! (?ix ! j)) (sims ! (?ix ! i))
        \<or> (sims ! (?ix ! i) \<noteq> NaN \<and> sims ! (?ix ! j) = NaN)
        \<or> sims ! (?ix ! i) = sims ! (?ix ! j) \<and> ?ix ! i < ?ix ! j"
    using sorted_wrt_nth_less [OF nlargest_indexer_ranked assms(3) j] .
  moreover have "\<not> isnan (similarity_score (out ! i))" "\<not> isnan (similarity_score (out ! j))"
    using assms(2,3,4) by auto
  ultimately show ?thesis
    unfolding si sj by (auto simp: np_ge_def isnan_def np_lt_irrefl dest: np_lt_asym)
qed

text \<open>
  Claim C5 fails on a batch that holds a zero vector.  \<open>batch_cosine_similarity\<close>
  divides by the norm without the test that \<open>cosine_similarity\<close> makes, the score of the
  zero vector is NaN where the scalar function gives \<open>0.0\<close>, and the returned scores
  \<open>1.0, NaN\<close> are not in non-increasing order: \<open>1.0 >= NaN\<close> is false.
\<close>

theorem find_top_similar_nan_score_unsorted:
  "find_top_similar [Fin 1, Fin 0]
     [\<lparr>df_index = 0, publication_number = ''JP-0-A'', title = ''t0'',
       filing_date = 20200101, country_code = ''JP'', embedding_v1 = [Fin 0, Fin 0]\<rparr>,
      \<lparr>df_index = 1, publication_number = ''JP-1-A'', title = ''t1'',
       filing_date = 20200102, country_code = ''JP'', embedding_v1 = [Fin 1, Fin 0]\<rparr>] 2
   = Inr [\<lparr>df_index = 1, publication_number = ''JP-1-A'', title = ''t1'',
       filing_date = 20200102, country_code = ''JP'', similarity_score = Fin 1\<rparr>,
     \<lparr>df_index = 0, publication_number = ''JP-0-A'', title = ''t0'',
       filing_date = 20200101, country_code = ''JP'', similarity_score = NaN\<rparr>]
   \<and> \<not> np_ge (Fin 1) NaN
   \<and> cosine_similarity [Fin 1, Fin 0] [Fin 0, Fin 0] = Inr (Fin 0)"
  by (simp add: eval_defs np_ge_def cosine_similarity_def np_dot_def np_eq_def)

subsection \<open>Labels of the returned rows\<close>

text \<open>
  Claim C6 does not hold: a returned row has the index label, the metadata columns and
  the score, and no rank.  The label is the one the row has in the input frame, here
  its position counted from 0: the three returned rows are labelled 2, 0 and 1.
\<close>

theorem find_top_similar_no_rank_counterexample:
  "find_top_similar [Fin 1, Fin 0]
     [\<lparr>df_index = 0, publication_number = ''JP-0-A'', title = ''t0'',
       filing_date = 20200101, country_code = ''JP'', embedding_v1 = [Fin 0, Fin 1]\<rparr>,
      \<lparr>df_index = 1, publication_number = ''JP-1-A'', title = ''t1'',
       filing_date = 20200102, country_code = ''JP'', embedding_v1 = [Fin (- 1), Fin 0]\<rparr>,
      \<lparr>df_index = 2, publication_number = ''JP-2-A'', title = ''t2'',
       filing_date = 20200103, country_code = ''JP'', embedding_v1 = [Fin 1, Fin 0]\<rparr>] 3
   = Inr [\<lparr>df_index = 2, publication_number = ''JP-2-A'', title = ''t2'',
       filing_date = 20200103, country_code = ''JP'', similarity_score = Fin 1\<rparr>,
      \<lparr>df_index = 0, publication_number = ''JP-0-A'', title = ''t0'',
       filing_date = 20200101, country_code = ''JP'', similarity_score = Fin 0\<rparr>,
      \<lparr>df_index = 1, publication_number = ''JP-1-A'', title = ''t1'',
       filing_date = 20200102, country_code = ''JP'', similarity_score = Fin (- 1)\<rparr>]"
  by (simp add: eval_defs)

text \<open>
  Claim C6, amended.  Every returned row is made from one row of the input batch, the
  one at the position the indexer gives: it carries that row's index label (the
  caller's label, which is the 0-based position for a default index), its metadata and
  the score stored for it.  No two returned rows are made from the same input row,
  also when their scores are tied.  No rank is stored: the rank of a row is only its
  position in the result.
\<close>

theorem find_top_similar_labels:
  assumes "find_top_similar q cands k = Inr out"
  shows "\<exists>sims ix.
           batch_cosine_similarity q (map embedding_v1 cands) = Inr sims
         \<and> length sims = length cands
         \<and> ix = nlargest_indexer (min k (int (length cands))) sims
         \<and> distinct ix
         \<and> length out = length ix
         \<and> (\<forall>i. i < length out \<longrightarrow>
               ix ! i < length cands
             \<and> df_index (out ! i) = df_index (cands ! (ix ! i))
             \<and> publication_number (out ! i) = publication_number (cands ! (ix ! i))
             \<and> title (out ! i) = title (cands ! (ix ! i))
             \<and> filing_date (out ! i) = filing_date (cands ! (ix ! i))
             \<and> country_code (out ! i) = country_code (cands ! (ix ! i))
             \<and> similarity_score (out ! i) = sims ! (ix ! i))"
proof -
  obtain sims where sims: "length sims = length cands"
      "batch_cosine_similarity q (map embedding_v1 cands) = Inr sims"
      "out = top_k_rows cands sims k"
    using find_top_similar_scores [OF assms] by blast
  let ?ix = "nlargest_indexer (min k (int (length cands))) sims"
  have out: "out = map (\<lambda>p. drop_embedding (cands ! p, sims ! p)) ?ix"
    using sims(1,3) by (simp add: top_k_rows_indexer)
  have row: "?ix ! i < length cands
             \<and> df_index (out ! i) = df_index (cands ! (?ix ! i))
             \<and> publication_number (out ! i) = publication_number (cands ! (?ix ! i))
             \<and> title (out ! i) = title (cands ! (?ix ! i))
             \<and> filing_date (out ! i) = filing_date (cands ! (?ix ! i))
             \<and> country_code (out ! i) = country_code (cands ! (?ix ! i))
             \<and> similarity_score (out ! i) = sims ! (?ix ! i)"
    if "i < length out" for i
  proof -
    have i: "i < length ?ix" using that out by simp
    then have "?ix ! i < length sims"
      by (intro nlargest_indexer_bound [of _ "min k (int (length cands))"]) simp
    moreover have "out ! i = drop_embedding (cands ! (?ix ! i), sims ! (?ix ! i))"
      using i out by simp
    ultimately show ?thesis using sims(1) by (simp add: drop_embedding_sel)
  qed
  have "distinct ?ix" by (rule distinct_nlargest_indexer)
  moreover have "length out = length ?ix" using out by simp
  ultimately show ?thesis using sims(1,2) row by blast
qed

theorem find_top_similar_labels_witness:
  "find_top_similar [Fin 1, Fin 0]
     [\<lparr>df_index = 7, publication_number = ''JP-0-A'', title = ''t0'',
       filing_date = 20200101, country_code = ''JP'', embedding_v1 = [Fin 0, Fin 2]\<rparr>,
      \<lparr>df_index = 3, publication_number = ''JP-1-A'', title = ''t1'',
       filing_date = 20200102, country_code = ''JP'', embedding_v1 = [Fin 2, Fin 0]\<rparr>] 2
   = Inr [\<lparr>df_index = 3, publication_number = ''JP-1-A'', title = ''t1'',
       filing_date = 20200102, country_code = ''JP'', similarity_score = Fin 1\<rparr>,
     \<lparr>df_index = 7, publication_number = ''JP-0-A'', title = ''t0'',
       filing_date = 20200101, country_code = ''JP'', similarity_score = Fin 0\<rparr>]
   \<and> distinct (nlargest_indexer 2 [Fin 0, Fin 1])"
proof -
  let ?q = "[Fin 1, Fin 0]"
  let ?cands = "[\<lparr>df_index = 7, publication_number = ''JP-0-A'', title = ''t0'',
       filing_date = 20200101, country_code = ''JP'', embedding_v1 = [Fin 0, Fin 2]\<rparr>,
      \<lparr>df_index = 3, publication_number = ''JP-1-A'', title = ''t1'',
       filing_date = 20200102, country_code = ''JP'', embedding_v1 = [Fin 2, Fin 0]\<rparr>]"
  let ?out = "[\<lparr>df_index = 3, publication_number = ''JP-1-A'', title = ''t1'',
       filing_date = 20200102, country_code = ''JP'', similarity_score = Fin 1\<rparr>,
     \<lparr>df_index = 7, publication_number = ''JP-0-A'', title = ''t0'',
       filing_date = 20200101, country_code = ''JP'', similarity_score = Fin 0\<rparr>]"
  have run: "find_top_similar ?q ?cands 2 = Inr ?out"
    by (simp add: eval_defs)
  have batch: "batch_cosine_similarity ?q (map embedding_v1 ?cands) = Inr [Fin 0, Fin 1]"
    by (simp add: eval_defs)
  obtain sims ix where
      "batch_cosine_similarity ?q (map embedding_v1 ?cands) = Inr sims"
      "ix = nlargest_indexer (min 2 (int (length ?cands))) sims" "distinct ix"
    using find_top_similar_labels [OF run] by blast
  then have "distinct (nlargest_indexer 2 [Fin 0, Fin 1])"
    using batch by simp
  then show ?thesis using run by blast
qed

end
